theory Spec2Isabelle
  imports Complex_Main
begin

section \<open>Python values, errors and numpy arrays\<close>

text \<open>
  Exceptions of the Python source are values: every function that can raise returns
  \<open>py_error + 'a\<close>, with \<open>Inl\<close> the exception.
\<close>

datatype py_error = KeyError | TypeError | IndexError | ValueError

definition bind_err :: "py_error + 'a \<Rightarrow> ('a \<Rightarrow> py_error + 'b) \<Rightarrow> py_error + 'b" where
  "bind_err m f = (case m of Inl e \<Rightarrow> Inl e | Inr v \<Rightarrow> f v)"

text \<open>A dict lookup \<open>d[k]\<close> raises KeyError on a missing key.\<close>

definition dict_get :: "('k \<rightharpoonup> 'v) \<Rightarrow> 'k \<Rightarrow> py_error + 'v" where
  "dict_get d k = (case d k of None \<Rightarrow> Inl KeyError | Some v \<Rightarrow> Inr v)"

text \<open>A list read \<open>xs[i]\<close> with a non-negative index raises IndexError out of range.\<close>

definition list_get :: "'a list \<Rightarrow> nat \<Rightarrow> py_error + 'a" where
  "list_get xs i = (if i < length xs then Inr (xs ! i) else Inl IndexError)"

text \<open>
  A two-dimensional numpy array: its number of columns and its rows. The element type
  \<open>'c\<close> of the summary arrays is fixed by the absent module \<open>rerps.models\<close>, so it stays a
  type parameter, and the conversion \<open>astype(float)\<close> of one element is a parameter
  \<open>tf\<close> of the functions that use it (\<open>None\<close> where the conversion raises).
\<close>

record 'c ndarray =
  ncols :: nat
  rows :: "'c list list"

definition wf_ndarray :: "'c ndarray \<Rightarrow> bool" where
  "wf_ndarray a = list_all (\<lambda>r. length r = ncols a) (rows a)"

text \<open>\<open>a[:, j]\<close>\<close>

definition np_col :: "'c ndarray \<Rightarrow> nat \<Rightarrow> py_error + 'c list" where
  "np_col a j = (if j < ncols a then Inr (map (\<lambda>r. r ! j) (rows a)) else Inl IndexError)"

text \<open>\<open>v.astype(float)\<close>\<close>

fun np_astype_float :: "('c \<Rightarrow> real option) \<Rightarrow> 'c list \<Rightarrow> py_error + real list" where
  "np_astype_float tf [] = Inr []"
| "np_astype_float tf (c # cs) =
     (case tf c of None \<Rightarrow> Inl ValueError
      | Some v \<Rightarrow> (case np_astype_float tf cs of Inl e \<Rightarrow> Inl e | Inr vs \<Rightarrow> Inr (v # vs)))"

text \<open>
  An elementwise operation of two one-dimensional arrays, with numpy's broadcasting:
  equal lengths, or one of the two of length one; anything else raises ValueError.
\<close>

definition np_binop :: "(real \<Rightarrow> real \<Rightarrow> real) \<Rightarrow> real list \<Rightarrow> real list \<Rightarrow> py_error + real list" where
  "np_binop f xs ys =
     (if length xs = length ys then Inr (map2 f xs ys)
      else (case xs of [x] \<Rightarrow> Inr (map (f x) ys)
            | _ \<Rightarrow> (case ys of [y] \<Rightarrow> Inr (map (\<lambda>x. f x y) xs) | _ \<Rightarrow> Inl ValueError)))"

definition np_add :: "real list \<Rightarrow> real list \<Rightarrow> py_error + real list" where
  "np_add = np_binop (+)"

definition np_sub :: "real list \<Rightarrow> real list \<Rightarrow> py_error + real list" where
  "np_sub = np_binop (-)"

text \<open>\<open>k * v\<close> for a scalar \<open>k\<close>\<close>

definition np_scale :: "real \<Rightarrow> real list \<Rightarrow> real list" where
  "np_scale k v = map (\<lambda>s. k * s) v"

section \<open>The calls made on a matplotlib Axes\<close>

text \<open>
  An Axes object is the sequence of the calls made on it; \<open>'l\<close> is the type of a curve's
  label.
\<close>

datatype 'l call =
    InvertYaxis
  | SetPropCycle "string list"
  | Plot "real list" "real list" 'l nat
  | FillBetween "real list" "real list" "real list" real
  | Grid
  | AxVSpan real real string real
  | AxHLine real string
  | AxVLine real string
  | TickParams string string nat
  | XTickLabelBottom bool
  | YTickLabelLeft bool
  | SetYLim real real
  | Legend string nat
  | SetTitle string nat
  | SetVisible bool

type_synonym 'l axes = "'l call list"

text \<open>\<open>ax.plot(x, y, label=l, linewidth=w)\<close> raises when x and y differ in length.\<close>

definition ax_plot :: "'l axes \<Rightarrow> real list \<Rightarrow> real list \<Rightarrow> 'l \<Rightarrow> nat \<Rightarrow> py_error + 'l axes" where
  "ax_plot ax xs ys l w =
     (if length xs = length ys then Inr (ax @ [Plot xs ys l w]) else Inl ValueError)"

text \<open>The decoration both single-electrode plots end with (lines 113-131 and 262-280).\<close>

definition truthy_float :: "real option \<Rightarrow> bool" where
  "truthy_float v = (case v of None \<Rightarrow> False | Some r \<Rightarrow> r \<noteq> 0)"

definition truthy_list :: "'a list option \<Rightarrow> bool" where
  "truthy_list v = (case v of None \<Rightarrow> False | Some xs \<Rightarrow> xs \<noteq> [])"

definition decorate ::
  "'l axes \<Rightarrow> string option \<Rightarrow> nat \<Rightarrow> bool \<Rightarrow> nat \<Rightarrow> real option \<Rightarrow> real option \<Rightarrow> 'l axes" where
  "decorate ax title title_fontsize legend legend_fontsize ymin ymax =
     ax @ [Grid, AxVSpan 300 500 ''grey'' (1/5), AxVSpan 600 1000 ''grey'' (1/5),
           AxHLine 0 ''black'', AxVLine 0 ''black'',
           TickParams ''both'' ''major'' 12, TickParams ''both'' ''minor'' 12,
           XTickLabelBottom True, YTickLabelLeft True]
        @ (if truthy_float ymin \<and> truthy_float ymax then [SetYLim (the ymin) (the ymax)] else [])
        @ (if legend then [Legend ''lower left'' legend_fontsize] else [])
        @ (if truthy_list title then [SetTitle (the title) title_fontsize] else [])"

text \<open>
  The start of both single-electrode plots (lines 81-88 and 233-240): a new figure when
  no Axes is given, and the colour cycle.
\<close>

definition start_axes :: "'l axes option \<Rightarrow> string list option \<Rightarrow> bool \<times> 'l axes" where
  "start_axes ax colors =
     (let (newfig, ax1) = (case ax of None \<Rightarrow> (True, [InvertYaxis]) | Some a \<Rightarrow> (False, a))
      in (newfig, if truthy_list colors then ax1 @ [SetPropCycle (the colors)] else ax1))"

section \<open>plot\_coefficients\<close>

record 'c model_summary =
  ms_means :: "'c ndarray"
  ms_sems :: "'c ndarray"
  ms_descriptors :: "string \<rightharpoonup> nat"
  ms_predictors :: "string list"
  ms_coefficients :: "string \<times> string \<rightharpoonup> nat"

text \<open>\<open>a[:, d[k]].astype(float)\<close>\<close>

definition float_col ::
  "('c \<Rightarrow> real option) \<Rightarrow> 'c ndarray \<Rightarrow> ('k \<rightharpoonup> nat) \<Rightarrow> 'k \<Rightarrow> py_error + real list" where
  "float_col tf a d k =
     bind_err (dict_get d k) (\<lambda>j. bind_err (np_col a j) (np_astype_float tf))"

text \<open>The body of the loop of \<open>plot_coefficients\<close> (lines 243-260) for one \<open>(i, p)\<close>.\<close>

definition plot_coefficients_body ::
  "('c \<Rightarrow> real option) \<Rightarrow> 'c model_summary \<Rightarrow> string \<Rightarrow> string \<Rightarrow> bool \<Rightarrow> nat \<times> string
     \<Rightarrow> string axes \<Rightarrow> py_error + string axes" where
  "plot_coefficients_body tf msm x y anchor ip ax =
     (let i = fst ip; p = snd ip in
      bind_err (float_col tf (ms_means msm) (ms_descriptors msm) x) (\<lambda>x_vals.
      bind_err (float_col tf (ms_means msm) (ms_coefficients msm) (y, p)) (\<lambda>y_vals.
      bind_err
        (if anchor \<and> i > 0 then
           bind_err (list_get (ms_predictors msm) 0) (\<lambda>p0.
           bind_err (float_col tf (ms_means msm) (ms_coefficients msm) (y, p0)) (\<lambda>i_vals.
           bind_err (np_add y_vals i_vals) (\<lambda>y_vals'.
           bind_err (list_get (ms_predictors msm) 0) (\<lambda>p0'.
           Inr (y_vals', p0' @ '' + '' @ p)))))
         else Inr (y_vals, p)) (\<lambda>(y_vals, l).
      bind_err (ax_plot ax x_vals y_vals l 3) (\<lambda>ax1.
      bind_err (float_col tf (ms_sems msm) (ms_coefficients msm) (y, p)) (\<lambda>y_sems.
      bind_err (np_sub y_vals (np_scale 2 y_sems)) (\<lambda>y_lvals.
      bind_err (np_add y_vals (np_scale 2 y_sems)) (\<lambda>y_uvals.
      Inr (ax1 @ [FillBetween x_vals y_lvals y_uvals (1/5)])))))))))"

fun plot_coefficients_loop ::
  "('c \<Rightarrow> real option) \<Rightarrow> 'c model_summary \<Rightarrow> string \<Rightarrow> string \<Rightarrow> bool \<Rightarrow> (nat \<times> string) list
     \<Rightarrow> string axes \<Rightarrow> py_error + string axes" where
  "plot_coefficients_loop tf msm x y anchor [] ax = Inr ax"
| "plot_coefficients_loop tf msm x y anchor (ip # ips) ax =
     (case plot_coefficients_body tf msm x y anchor ip ax of
        Inl e \<Rightarrow> Inl e
      | Inr ax1 \<Rightarrow> plot_coefficients_loop tf msm x y anchor ips ax1)"

text \<open>\<open>enumerate(xs)\<close>\<close>

definition enumerate_py :: "'a list \<Rightarrow> (nat \<times> 'a) list" where
  "enumerate_py xs = zip [0..<length xs] xs"

text \<open>
  \<open>plot_coefficients\<close> returns \<open>(fig, ax)\<close> for a new figure and \<open>ax\<close> otherwise: the
  result is the flag \<open>newfig\<close> and the Axes.
\<close>

definition plot_coefficients ::
  "('c \<Rightarrow> real option) \<Rightarrow> 'c model_summary \<Rightarrow> string \<Rightarrow> string \<Rightarrow> bool \<Rightarrow> string option \<Rightarrow> nat
     \<Rightarrow> bool \<Rightarrow> nat \<Rightarrow> string axes option \<Rightarrow> string list option \<Rightarrow> real option \<Rightarrow> real option
     \<Rightarrow> py_error + bool \<times> string axes" where
  "plot_coefficients tf msm x y anchor title title_fontsize legend legend_fontsize ax colors
       ymin ymax =
     (let (newfig, ax0) = start_axes ax colors in
      bind_err (plot_coefficients_loop tf msm x y anchor (enumerate_py (ms_predictors msm)) ax0)
        (\<lambda>ax1. Inr (newfig,
                  decorate ax1 title title_fontsize legend legend_fontsize ymin ymax)))"

section \<open>plot\_voltages\<close>

record 'c data_summary =
  ds_means :: "'c ndarray"
  ds_sems :: "'c ndarray"
  ds_descriptors :: "string \<rightharpoonup> nat"
  ds_electrodes :: "string \<rightharpoonup> nat"

text \<open>\<open>np.unique(v)\<close>: the distinct values, sorted.\<close>

definition np_unique :: "('c::linorder) list \<Rightarrow> 'c list" where
  "np_unique v = sort (remdups v)"

text \<open>\<open>v == g\<close>, elementwise\<close>

definition np_eq :: "'c list \<Rightarrow> 'c \<Rightarrow> bool list" where
  "np_eq v g = map (\<lambda>c. c = g) v"

text \<open>
  \<open>a[mask, j]\<close> for a boolean mask over the rows: the mask must have one entry per row,
  and \<open>j\<close> must be a column.
\<close>

definition np_index_mask :: "'c ndarray \<Rightarrow> bool list \<Rightarrow> nat \<Rightarrow> py_error + 'c list" where
  "np_index_mask a msk j =
     (if length msk = length (rows a) \<and> j < ncols a
      then Inr (map (\<lambda>rm. fst rm ! j) (filter snd (zip (rows a) msk)))
      else Inl IndexError)"

text \<open>\<open>a[a[:, d[groupby]] == g, cols[key]].astype(float)\<close>\<close>

definition masked_float_col ::
  "('c \<Rightarrow> real option) \<Rightarrow> 'c ndarray \<Rightarrow> (string \<rightharpoonup> nat) \<Rightarrow> string \<Rightarrow> 'c \<Rightarrow> (string \<rightharpoonup> nat)
     \<Rightarrow> string \<Rightarrow> py_error + real list" where
  "masked_float_col tf a d groupby g cols key =
     bind_err (dict_get d groupby) (\<lambda>k.
     bind_err (np_col a k) (\<lambda>gc.
     bind_err (dict_get cols key) (\<lambda>j.
     bind_err (np_index_mask a (np_eq gc g) j) (np_astype_float tf))))"

text \<open>The body of the loop of \<open>plot_voltages\<close> (lines 94-111) for one group \<open>g\<close>.\<close>

definition plot_voltages_body ::
  "('c \<Rightarrow> real option) \<Rightarrow> 'c data_summary \<Rightarrow> string \<Rightarrow> string \<Rightarrow> string \<Rightarrow> 'c
     \<Rightarrow> 'c axes \<Rightarrow> py_error + 'c axes" where
  "plot_voltages_body tf dsm x y groupby g ax =
     bind_err (masked_float_col tf (ds_means dsm) (ds_descriptors dsm) groupby g
                 (ds_descriptors dsm) x) (\<lambda>x_vals.
     bind_err (masked_float_col tf (ds_means dsm) (ds_descriptors dsm) groupby g
                 (ds_electrodes dsm) y) (\<lambda>y_vals.
     bind_err (ax_plot ax x_vals y_vals g 3) (\<lambda>ax1.
     bind_err (masked_float_col tf (ds_sems dsm) (ds_descriptors dsm) groupby g
                 (ds_electrodes dsm) y) (\<lambda>y_sems.
     bind_err (np_sub y_vals (np_scale 2 y_sems)) (\<lambda>y_lvals.
     bind_err (np_add y_vals (np_scale 2 y_sems)) (\<lambda>y_uvals.
     Inr (ax1 @ [FillBetween x_vals y_lvals y_uvals (1/5)])))))))"

fun plot_voltages_loop ::
  "('c \<Rightarrow> real option) \<Rightarrow> 'c data_summary \<Rightarrow> string \<Rightarrow> string \<Rightarrow> string \<Rightarrow> 'c list
     \<Rightarrow> 'c axes \<Rightarrow> py_error + 'c axes" where
  "plot_voltages_loop tf dsm x y groupby [] ax = Inr ax"
| "plot_voltages_loop tf dsm x y groupby (g # gs) ax =
     (case plot_voltages_body tf dsm x y groupby g ax of
        Inl e \<Rightarrow> Inl e
      | Inr ax1 \<Rightarrow> plot_voltages_loop tf dsm x y groupby gs ax1)"

text \<open>
  Lines 90-92: the groups that are drawn. \<open>set(group_order)\<close> raises TypeError for the
  default \<open>group_order=None\<close>.
\<close>

definition drawn_groups ::
  "('c::linorder) data_summary \<Rightarrow> string \<Rightarrow> 'c list option \<Rightarrow> py_error + 'c list" where
  "drawn_groups dsm groupby group_order =
     bind_err (dict_get (ds_descriptors dsm) groupby) (\<lambda>k.
     bind_err (np_col (ds_means dsm) k) (\<lambda>gc.
     (let groups = np_unique gc in
      (case group_order of
         None \<Rightarrow> Inl TypeError
       | Some order \<Rightarrow> Inr (if set order = set groups then order else groups)))))"

definition plot_voltages ::
  "('c \<Rightarrow> real option) \<Rightarrow> ('c::linorder) data_summary \<Rightarrow> string \<Rightarrow> string \<Rightarrow> string
     \<Rightarrow> 'c list option \<Rightarrow> string option \<Rightarrow> nat \<Rightarrow> bool \<Rightarrow> nat \<Rightarrow> 'c axes option
     \<Rightarrow> string list option \<Rightarrow> real option \<Rightarrow> real option \<Rightarrow> py_error + bool \<times> 'c axes" where
  "plot_voltages tf dsm x y groupby group_order title title_fontsize legend legend_fontsize ax
       colors ymin ymax =
     (let (newfig, ax0) = start_axes ax colors in
      bind_err (drawn_groups dsm groupby group_order) (\<lambda>groups.
      bind_err (plot_voltages_loop tf dsm x y groupby groups ax0) (\<lambda>ax1.
      Inr (newfig, decorate ax1 title title_fontsize legend legend_fontsize ymin ymax))))"

section \<open>The electrode grids\<close>















section \<open>What a plot shows\<close>

text \<open>
  The predicates below say what the calls recorded on an Axes show; the properties of
  the plotting functions are stated with them.
\<close>

fun is_plot :: "'l call \<Rightarrow> bool" where
  "is_plot (Plot xs ys l w) = True"
| "is_plot c = False"

fun plot_label :: "'l call \<Rightarrow> 'l list" where
  "plot_label (Plot xs ys l w) = [l]"
| "plot_label c = []"

text \<open>The labels of the curves, in the order they were drawn.\<close>

definition curve_labels :: "'l call list \<Rightarrow> 'l list" where
  "curve_labels cs = concat (map plot_label cs)"

text \<open>
  The calls a single-electrode plot made on the Axes on top of those it started with
  (the Axes it was given, or a new one, and the colour cycle).
\<close>

definition added_calls :: "'l axes option \<Rightarrow> string list option \<Rightarrow> 'l axes \<Rightarrow> 'l call list" where
  "added_calls ax colors ax' = drop (length (snd (start_axes ax colors))) ax'"

text \<open>The indices of the rows of an array whose column \<open>k\<close> holds \<open>g\<close>.\<close>

definition group_rows :: "'c ndarray \<Rightarrow> nat \<Rightarrow> 'c \<Rightarrow> nat list" where
  "group_rows a k g = filter (\<lambda>i. rows a ! i ! k = g) [0..<length (rows a)]"

text \<open>
  \<open>cb\<close> is a curve followed by its band, and at every point \<open>n\<close> the band runs from
  the curve minus twice to the curve plus twice the cell of \<open>sems\<close> in row \<open>idx ! n\<close>
  and column \<open>j\<close>.
\<close>

definition two_sem_band ::
  "('c \<Rightarrow> real option) \<Rightarrow> 'c ndarray \<Rightarrow> nat list \<Rightarrow> nat \<Rightarrow> 'l call list \<Rightarrow> bool" where
  "two_sem_band tf sems idx j cb =
     (\<exists>xs ys l lo hi.
        cb = [Plot xs ys l 3, FillBetween xs lo hi (1/5)] \<and>
        length xs = length ys \<and> length lo = length ys \<and> length hi = length ys \<and>
        length idx = length ys \<and>
        (\<forall>n<length ys. \<exists>s. tf (rows sems ! (idx ! n) ! j) = Some s \<and>
             lo ! n = ys ! n - 2 * s \<and> hi ! n = ys ! n + 2 * s))"

text \<open>
  \<open>cb\<close> starts with a curve labelled \<open>l\<close> whose point \<open>n\<close> is the cell of \<open>means\<close> in
  row \<open>idx ! n\<close> and column \<open>j\<close>.
\<close>

definition mean_curve ::
  "('c \<Rightarrow> real option) \<Rightarrow> 'c ndarray \<Rightarrow> nat list \<Rightarrow> nat \<Rightarrow> 'l \<Rightarrow> 'l call list \<Rightarrow> bool" where
  "mean_curve tf means idx j l cb =
     (\<exists>xs ys rest. cb = Plot xs ys l 3 # rest \<and> length idx = length ys \<and>
        (\<forall>n<length ys. tf (rows means ! (idx ! n) ! j) = Some (ys ! n)))"

text \<open>
  Two arrays hold the same values in column \<open>k\<close>, row by row; the means and the
  standard errors of a summary are aligned on the grouping descriptor.
\<close>

definition same_column :: "'c ndarray \<Rightarrow> 'c ndarray \<Rightarrow> nat \<Rightarrow> bool" where
  "same_column a b k = (map (\<lambda>r. r ! k) (rows a) = map (\<lambda>r. r ! k) (rows b))"

definition groupby_aligned :: "'c data_summary \<Rightarrow> string \<Rightarrow> bool" where
  "groupby_aligned dsm groupby =
     (case ds_descriptors dsm groupby of None \<Rightarrow> True
      | Some k \<Rightarrow> same_column (ds_means dsm) (ds_sems dsm) k)"

text \<open>
  What one successful pass through the loop body of \<open>plot_voltages\<close> adds to the Axes
  for group \<open>g\<close>, and of \<open>plot_coefficients\<close> for \<open>(i, p)\<close>.
\<close>

definition volt_step :: "('c \<Rightarrow> real option) \<Rightarrow> 'c data_summary \<Rightarrow> string \<Rightarrow> string \<Rightarrow> string
   \<Rightarrow> 'c \<Rightarrow> 'c call list \<Rightarrow> bool" where
  "volt_step tf dsm x y groupby g cb =
     (\<exists>xs ys ss lo hi.
        masked_float_col tf (ds_means dsm) (ds_descriptors dsm) groupby g (ds_descriptors dsm) x = Inr xs \<and>
        masked_float_col tf (ds_means dsm) (ds_descriptors dsm) groupby g (ds_electrodes dsm) y = Inr ys \<and>
        masked_float_col tf (ds_sems dsm) (ds_descriptors dsm) groupby g (ds_electrodes dsm) y = Inr ss \<and>
        np_sub ys (np_scale 2 ss) = Inr lo \<and> np_add ys (np_scale 2 ss) = Inr hi \<and>
        length xs = length ys \<and>
        cb = [Plot xs ys g 3, FillBetween xs lo hi (1/5)])"

definition coef_step :: "('c \<Rightarrow> real option) \<Rightarrow> 'c model_summary \<Rightarrow> string \<Rightarrow> string \<Rightarrow> bool
   \<Rightarrow> nat \<times> string \<Rightarrow> string call list \<Rightarrow> bool" where
  "coef_step tf msm x y anchor ip cb =
     (\<exists>xs sv ss yv l lo hi.
        float_col tf (ms_means msm) (ms_descriptors msm) x = Inr xs \<and>
        float_col tf (ms_means msm) (ms_coefficients msm) (y, snd ip) = Inr sv \<and>
        float_col tf (ms_sems msm) (ms_coefficients msm) (y, snd ip) = Inr ss \<and>
        np_sub yv (np_scale 2 ss) = Inr lo \<and> np_add yv (np_scale 2 ss) = Inr hi \<and>
        length xs = length yv \<and> length yv = length sv \<and>
        cb = [Plot xs yv l 3, FillBetween xs lo hi (1/5)] \<and>
        (if anchor \<and> fst ip > 0
         then \<exists>p0 ps iv. ms_predictors msm = p0 # ps \<and>
                float_col tf (ms_means msm) (ms_coefficients msm) (y, p0) = Inr iv \<and>
                yv = map2 (+) sv iv \<and> l = p0 @ '' + '' @ snd ip
         else yv = sv \<and> l = snd ip))"

text \<open>
  \<open>cb\<close> starts with a curve whose x value at point \<open>n\<close> is the cell of \<open>means\<close> in row
  \<open>idx ! n\<close> and column \<open>jx\<close>.
\<close>

definition curve_xs ::
  "('c \<Rightarrow> real option) \<Rightarrow> 'c ndarray \<Rightarrow> nat list \<Rightarrow> nat \<Rightarrow> 'l call list \<Rightarrow> bool" where
  "curve_xs tf means idx jx cb =
     (\<exists>xs ys l rest. cb = Plot xs ys l 3 # rest \<and> length idx = length xs \<and>
        (\<forall>n<length xs. tf (rows means ! (idx ! n) ! jx) = Some (xs ! n)))"

text \<open>
  \<open>cb\<close> starts with a curve labelled \<open>l\<close> whose point \<open>n\<close> is the sum of two cells of
  \<open>means\<close> in row \<open>idx ! n\<close>: the one in column \<open>j\<close> and the one in column \<open>j0\<close>.
\<close>

definition anchored_curve ::
  "('c \<Rightarrow> real option) \<Rightarrow> 'c ndarray \<Rightarrow> nat list \<Rightarrow> nat \<Rightarrow> nat \<Rightarrow> 'l \<Rightarrow> 'l call list \<Rightarrow> bool" where
  "anchored_curve tf means idx j j0 l cb =
     (\<exists>xs ys rest. cb = Plot xs ys l 3 # rest \<and> length idx = length ys \<and>
        (\<forall>n<length ys. \<exists>m i0. tf (rows means ! (idx ! n) ! j) = Some m \<and>
             tf (rows means ! (idx ! n) ! j0) = Some i0 \<and> ys ! n = m + i0))"

text \<open>
  \<open>cb\<close> is a curve followed by its band, and at every point \<open>n\<close> the band runs from the
  mean minus twice to the mean plus twice the standard error, where the mean and the
  standard error are the cells of \<open>means\<close> and of \<open>sems\<close> in row \<open>idx ! n\<close> and column \<open>j\<close>.
\<close>

definition mean_band ::
  "('c \<Rightarrow> real option) \<Rightarrow> 'c ndarray \<Rightarrow> 'c ndarray \<Rightarrow> nat list \<Rightarrow> nat \<Rightarrow> 'l call list \<Rightarrow> bool" where
  "mean_band tf means sems idx j cb =
     (\<exists>xs ys l lo hi. cb = [Plot xs ys l 3, FillBetween xs lo hi (1/5)] \<and>
        length lo = length idx \<and> length hi = length idx \<and>
        (\<forall>n<length idx. \<exists>m s. tf (rows means ! (idx ! n) ! j) = Some m \<and>
             tf (rows sems ! (idx ! n) ! j) = Some s \<and>
             lo ! n = m - 2 * s \<and> hi ! n = m + 2 * s))"

text \<open>
  What \<open>plot_voltages\<close> draws for group \<open>g\<close>, in terms of the cells of the summary: the
  rows are those of the group, the x values come from the column of \<open>x\<close>, the curve is
  the column of means of the electrode, and the band surrounds the means by twice the
  standard errors.
\<close>

definition volt_curve :: "('c \<Rightarrow> real option) \<Rightarrow> 'c data_summary \<Rightarrow> string \<Rightarrow> string \<Rightarrow> nat
   \<Rightarrow> 'c \<Rightarrow> 'c call list \<Rightarrow> bool" where
  "volt_curve tf dsm x y k g cb =
     (\<exists>j jx. ds_electrodes dsm y = Some j \<and> ds_descriptors dsm x = Some jx \<and>
        curve_xs tf (ds_means dsm) (group_rows (ds_means dsm) k g) jx cb \<and>
        mean_curve tf (ds_means dsm) (group_rows (ds_means dsm) k g) j g cb \<and>
        two_sem_band tf (ds_sems dsm) (group_rows (ds_means dsm) k g) j cb \<and>
        mean_band tf (ds_means dsm) (ds_sems dsm) (group_rows (ds_means dsm) k g) j cb)"

text \<open>
  What \<open>plot_coefficients\<close> draws for the predictor \<open>snd ip\<close> at position \<open>fst ip\<close>, in
  terms of the cells of the summary. The band always surrounds the plotted curve by
  twice the standard errors of the coefficient. The curve is the column of means of the
  coefficient, so that the band surrounds the means, unless the curve is anchored: then
  the curve is the sum of the means of the coefficient and of the means of the first
  predictor's coefficient, and the band surrounds that sum.
\<close>

definition coef_curve :: "('c \<Rightarrow> real option) \<Rightarrow> 'c model_summary \<Rightarrow> string \<Rightarrow> string \<Rightarrow> bool
   \<Rightarrow> nat \<times> string \<Rightarrow> string call list \<Rightarrow> bool" where
  "coef_curve tf msm x y anchor ip cb =
     (\<exists>j jx. ms_coefficients msm (y, snd ip) = Some j \<and> ms_descriptors msm x = Some jx \<and>
        curve_xs tf (ms_means msm) [0..<length (rows (ms_means msm))] jx cb \<and>
        two_sem_band tf (ms_sems msm) [0..<length (rows (ms_means msm))] j cb \<and>
        (if anchor \<and> 0 < fst ip
         then \<exists>p0 ps j0. ms_predictors msm = p0 # ps \<and> ms_coefficients msm (y, p0) = Some j0 \<and>
                anchored_curve tf (ms_means msm) [0..<length (rows (ms_means msm))] j j0
                  (p0 @ '' + '' @ snd ip) cb
         else mean_curve tf (ms_means msm) [0..<length (rows (ms_means msm))] j (snd ip) cb \<and>
              mean_band tf (ms_means msm) (ms_sems msm) [0..<length (rows (ms_means msm))] j cb))"










subsection \<open>Two small summaries\<close>

text \<open>
  A summary of coefficients over two time samples, with an intercept and one slope for
  the electrode Pz, and a summary of voltages for two conditions (1 and 2) at two time
  samples. Their cells are numbers.
\<close>

definition msm_example :: "real model_summary" where
  "msm_example = \<lparr>ms_means = \<lparr>ncols = 3, rows = [[0, 1, 10], [100, 2, 20]]\<rparr>,
           ms_sems = \<lparr>ncols = 3, rows = [[0, 1/2, 1], [100, 1/4, 2]]\<rparr>,
           ms_descriptors = [''Timestamp'' \<mapsto> 0],
           ms_predictors = [''intercept'', ''plaus''],
           ms_coefficients = [(''Pz'', ''intercept'') \<mapsto> 1, (''Pz'', ''plaus'') \<mapsto> 2]\<rparr>"

definition dsm_example :: "nat data_summary" where
  "dsm_example = \<lparr>ds_means = \<lparr>ncols = 3, rows = [[2, 0, 10], [1, 0, 20], [2, 100, 30], [1, 100, 40]]\<rparr>,
           ds_sems = \<lparr>ncols = 3, rows = [[2, 0, 1], [1, 0, 2], [2, 100, 3], [1, 100, 4]]\<rparr>,
           ds_descriptors = [''Condition'' \<mapsto> 0, ''Timestamp'' \<mapsto> 1],
           ds_electrodes = [''Pz'' \<mapsto> 2]\<rparr>"

definition float_of_nat :: "nat \<Rightarrow> real option" where
  "float_of_nat n = Some (real n)"

section \<open>Lemmas on the plotting functions\<close>

lemma bind_err_Inr: "bind_err m f = Inr v \<longleftrightarrow> (\<exists>u. m = Inr u \<and> f u = Inr v)"
  by (cases m) (simp_all add: bind_err_def)

lemma np_astype_float_Inr:
  "np_astype_float tf cs = Inr vs \<Longrightarrow> list_all2 (\<lambda>c v. tf c = Some v) cs vs"
  by (induction cs arbitrary: vs) (auto split: option.splits sum.splits)

lemma np_astype_float_length: "np_astype_float tf cs = Inr vs \<Longrightarrow> length vs = length cs"
  by (drule np_astype_float_Inr) (simp add: list_all2_lengthD)

lemma float_col_length: "float_col tf a d k = Inr v \<Longrightarrow> length v = length (rows a)"
  by (auto simp: float_col_def bind_err_Inr np_col_def dest!: np_astype_float_length split: if_splits)

lemma np_binop_same: "length xs = length ys \<Longrightarrow> np_binop f xs ys = Inr (map2 f xs ys)"
  by (simp add: np_binop_def)

lemma map2_scale: "map2 f ys (np_scale k ss) = map2 (\<lambda>m s. f m (k * s)) ys ss"
  by (simp add: np_scale_def zip_map2 split_def)

lemma plot_coefficients_body_step:
  assumes "plot_coefficients_body tf msm x y anchor ip ax = Inr ax1"
  shows "\<exists>cb. ax1 = ax @ cb \<and> coef_step tf msm x y anchor ip cb"
proof -
  obtain i p where ip: "ip = (i, p)" by (cases ip)
  from assms obtain xs sv yv l ax' ss lo hi where
    xs: "float_col tf (ms_means msm) (ms_descriptors msm) x = Inr xs" and
    sv: "float_col tf (ms_means msm) (ms_coefficients msm) (y, p) = Inr sv" and
    an: "(if anchor \<and> i > 0 then
           bind_err (list_get (ms_predictors msm) 0) (\<lambda>p0.
           bind_err (float_col tf (ms_means msm) (ms_coefficients msm) (y, p0)) (\<lambda>i_vals.
           bind_err (np_add sv i_vals) (\<lambda>y_vals'.
           bind_err (list_get (ms_predictors msm) 0) (\<lambda>p0'.
           Inr (y_vals', p0' @ '' + '' @ p)))))
         else Inr (sv, p)) = Inr (yv, l)" and
    pl: "ax_plot ax xs yv l 3 = Inr ax'" and
    ss: "float_col tf (ms_sems msm) (ms_coefficients msm) (y, p) = Inr ss" and
    lo: "np_sub yv (np_scale 2 ss) = Inr lo" and
    hi: "np_add yv (np_scale 2 ss) = Inr hi" and
    ax1: "ax1 = ax' @ [FillBetween xs lo hi (1/5)]"
    unfolding ip by (auto simp: plot_coefficients_body_def bind_err_Inr Let_def)
  have lsv: "length sv = length (rows (ms_means msm))" using sv by (rule float_col_length)
  have lyv: "length yv = length sv \<and>
             (if anchor \<and> i > 0
              then \<exists>p0 ps iv. ms_predictors msm = p0 # ps \<and>
                     float_col tf (ms_means msm) (ms_coefficients msm) (y, p0) = Inr iv \<and>
                     yv = map2 (+) sv iv \<and> l = p0 @ '' + '' @ p
              else yv = sv \<and> l = p)"
  proof (cases "anchor \<and> i > 0")
    case True
    with an obtain p0 iv where
      p0: "list_get (ms_predictors msm) 0 = Inr p0" and
      iv: "float_col tf (ms_means msm) (ms_coefficients msm) (y, p0) = Inr iv" and
      yv: "np_add sv iv = Inr yv" and l: "l = p0 @ '' + '' @ p"
      by (auto simp: bind_err_Inr)
    have liv: "length iv = length sv" using float_col_length[OF iv] lsv by simp
    from p0 obtain ps where "ms_predictors msm = p0 # ps"
      by (cases "ms_predictors msm") (auto simp: list_get_def split: if_splits)
    moreover have "yv = map2 (+) sv iv"
      using yv liv by (simp add: np_add_def np_binop_same)
    ultimately show ?thesis using True iv l liv by auto
  next
    case False
    with an show ?thesis by auto
  qed
  have pl': "ax' = ax @ [Plot xs yv l 3]" "length xs = length yv"
    using pl by (auto simp: ax_plot_def split: if_splits)
  have "coef_step tf msm x y anchor ip [Plot xs yv l 3, FillBetween xs lo hi (1/5)]"
    unfolding coef_step_def ip fst_conv snd_conv
    using xs sv ss lo hi pl'(2) lyv by blast
  then show ?thesis using ax1 pl'(1) by simp
qed

lemma plot_coefficients_loop_steps:
  "plot_coefficients_loop tf msm x y anchor ips ax = Inr ax' \<Longrightarrow>
   \<exists>cbs. ax' = ax @ concat cbs \<and> list_all2 (coef_step tf msm x y anchor) ips cbs"
proof (induction ips arbitrary: ax)
  case Nil
  then show ?case by simp
next
  case (Cons ip ips)
  from Cons.prems obtain ax1 where
    b: "plot_coefficients_body tf msm x y anchor ip ax = Inr ax1" and
    l: "plot_coefficients_loop tf msm x y anchor ips ax1 = Inr ax'"
    by (auto split: sum.splits)
  from plot_coefficients_body_step[OF b] obtain cb where
    cb: "ax1 = ax @ cb" "coef_step tf msm x y anchor ip cb" by blast
  from Cons.IH[OF l] obtain cbs where
    cbs: "ax' = ax1 @ concat cbs" "list_all2 (coef_step tf msm x y anchor) ips cbs" by blast
  have "ax' = ax @ concat (cb # cbs)" using cb(1) cbs(1) by simp
  moreover have "list_all2 (coef_step tf msm x y anchor) (ip # ips) (cb # cbs)"
    using cb(2) cbs(2) by simp
  ultimately show ?case by blast
qed

lemma plot_coefficients_Inr:
  assumes "plot_coefficients tf msm x y anchor title tfs legend lfs ax colors ymin ymax = Inr (nf, ax')"
  shows "\<exists>cbs. ax' = decorate (snd (start_axes ax colors) @ concat cbs) title tfs legend lfs ymin ymax
           \<and> list_all2 (coef_step tf msm x y anchor) (enumerate_py (ms_predictors msm)) cbs"
proof -
  obtain nf0 ax0 where s: "start_axes ax colors = (nf0, ax0)" by (cases "start_axes ax colors")
  from assms s obtain ax1 where
    l: "plot_coefficients_loop tf msm x y anchor (enumerate_py (ms_predictors msm)) ax0 = Inr ax1"
    and a: "ax' = decorate ax1 title tfs legend lfs ymin ymax"
    by (auto simp: plot_coefficients_def bind_err_Inr)
  from plot_coefficients_loop_steps[OF l] a s show ?thesis by auto
qed

lemma filter_plot_decorate:
  "filter is_plot (decorate a title tfs legend lfs ymin ymax) = filter is_plot a"
  by (simp add: decorate_def)

lemma added_calls_decorate:
  "filter is_plot (added_calls ax colors
      (decorate (snd (start_axes ax colors) @ new) title tfs legend lfs ymin ymax))
   = filter is_plot new"
  by (simp add: added_calls_def decorate_def)

lemma enumerate_py_Cons: "enumerate_py (p # ps) = (0, p) # zip [1..<Suc (length ps)] ps"
  by (simp add: enumerate_py_def upt_conv_Cons del: upt_Suc)

lemma list_all2_zip_upt:
  assumes "list_all2 P (zip [a..<a + length ps] ps) cs"
  shows "list_all2 (\<lambda>p c. \<exists>i\<ge>a. P (i, p) c) ps cs"
proof -
  have len: "length ps = length cs" using assms by (simp add: list_all2_conv_all_nth)
  have "\<exists>j\<ge>a. P (j, ps ! i) (cs ! i)" if "i < length cs" for i
  proof -
    have "P (a + i, ps ! i) (cs ! i)"
      using assms that len by (simp add: list_all2_conv_all_nth)
    then show ?thesis by (intro exI[of _ "a + i"]) simp
  qed
  then show ?thesis using len by (simp add: list_all2_conv_all_nth)
qed

lemma filter_plot_pairs:
  assumes "list_all2 (\<lambda>p cb. \<exists>c b. cb = [c, b] \<and> is_plot c \<and> \<not> is_plot b \<and> Q p c) ps cbs"
  shows "list_all2 Q ps (filter is_plot (concat cbs))"
  using assms by (induction rule: list_all2_induct) auto

lemma plot_voltages_body_step:
  assumes "plot_voltages_body tf dsm x y groupby g ax = Inr ax1"
  shows "\<exists>cb. ax1 = ax @ cb \<and> volt_step tf dsm x y groupby g cb"
  using assms unfolding plot_voltages_body_def volt_step_def bind_err_Inr ax_plot_def
  by (auto split: if_splits)

lemma plot_voltages_loop_steps:
  "plot_voltages_loop tf dsm x y groupby gs ax = Inr ax' \<Longrightarrow>
   \<exists>cbs. ax' = ax @ concat cbs \<and> list_all2 (volt_step tf dsm x y groupby) gs cbs"
proof (induction gs arbitrary: ax)
  case Nil
  then show ?case by simp
next
  case (Cons g gs)
  from Cons.prems obtain ax1 where
    b: "plot_voltages_body tf dsm x y groupby g ax = Inr ax1" and
    l: "plot_voltages_loop tf dsm x y groupby gs ax1 = Inr ax'"
    by (auto split: sum.splits)
  from plot_voltages_body_step[OF b] obtain cb where
    cb: "ax1 = ax @ cb" "volt_step tf dsm x y groupby g cb" by blast
  from Cons.IH[OF l] obtain cbs where
    cbs: "ax' = ax1 @ concat cbs" "list_all2 (volt_step tf dsm x y groupby) gs cbs" by blast
  have "ax' = ax @ concat (cb # cbs)" using cb(1) cbs(1) by simp
  moreover have "list_all2 (volt_step tf dsm x y groupby) (g # gs) (cb # cbs)"
    using cb(2) cbs(2) by simp
  ultimately show ?case by blast
qed

lemma plot_voltages_Inr:
  assumes "plot_voltages tf dsm x y groupby group_order title tfs legend lfs ax colors ymin ymax
             = Inr (nf, ax')"
  shows "\<exists>groups cbs. drawn_groups dsm groupby group_order = Inr groups \<and>
           ax' = decorate (snd (start_axes ax colors) @ concat cbs) title tfs legend lfs ymin ymax
           \<and> list_all2 (volt_step tf dsm x y groupby) groups cbs"
proof -
  obtain nf0 ax0 where s: "start_axes ax colors = (nf0, ax0)" by (cases "start_axes ax colors")
  from assms s obtain groups ax1 where
    g: "drawn_groups dsm groupby group_order = Inr groups" and
    l: "plot_voltages_loop tf dsm x y groupby groups ax0 = Inr ax1"
    and a: "ax' = decorate ax1 title tfs legend lfs ymin ymax"
    by (auto simp: plot_voltages_def bind_err_Inr)
  from plot_voltages_loop_steps[OF l] a s g show ?thesis by auto
qed

lemma filter_zip_mask:
  "map fst (filter snd (zip rs (map P rs))) = filter P rs"
  by (induction rs) auto

lemma filter_by_index: "filter P rs = map ((!) rs) (filter (\<lambda>i. P (rs ! i)) [0..<length rs])"
proof -
  have "filter P rs = filter P (map ((!) rs) [0..<length rs])" by (simp add: map_nth)
  also have "\<dots> = map ((!) rs) (filter (P \<circ> (!) rs) [0..<length rs])" by (simp only: filter_map)
  finally show ?thesis by (simp add: comp_def)
qed

lemma np_index_mask_eq:
  "np_index_mask a (np_eq (map (\<lambda>r. r ! k) (rows a)) g) j =
     (if j < ncols a then Inr (map (\<lambda>i. rows a ! i ! j) (group_rows a k g)) else Inl IndexError)"
proof -
  have "map (\<lambda>rm. fst rm ! j) (filter snd (zip (rows a) (map (\<lambda>r. r ! k = g) (rows a))))
        = map (\<lambda>r. r ! j) (map fst (filter snd (zip (rows a) (map (\<lambda>r. r ! k = g) (rows a)))))"
    by simp
  also have "\<dots> = map (\<lambda>r. r ! j) (filter (\<lambda>r. r ! k = g) (rows a))"
    by (simp only: filter_zip_mask)
  also have "\<dots> = map (\<lambda>i. rows a ! i ! j) (group_rows a k g)"
    unfolding group_rows_def by (subst filter_by_index) simp
  finally show ?thesis by (simp add: np_index_mask_def np_eq_def comp_def)
qed

lemma masked_float_col_Inr:
  assumes "masked_float_col tf a d groupby g cols key = Inr v"
  shows "\<exists>k j. d groupby = Some k \<and> cols key = Some j \<and> k < ncols a \<and> j < ncols a \<and>
           length v = length (group_rows a k g) \<and>
           (\<forall>n<length v. tf (rows a ! (group_rows a k g ! n) ! j) = Some (v ! n))"
proof -
  from assms obtain k j where k: "d groupby = Some k" "k < ncols a" and j: "cols key = Some j"
    and m: "bind_err (np_index_mask a (np_eq (map (\<lambda>r. r ! k) (rows a)) g) j) (np_astype_float tf) = Inr v"
    by (auto simp: masked_float_col_def bind_err_Inr dict_get_def np_col_def
             split: option.splits if_splits)
  from m have jc: "j < ncols a"
    and c: "np_astype_float tf (map (\<lambda>i. rows a ! i ! j) (group_rows a k g)) = Inr v"
    unfolding np_index_mask_eq by (auto simp: bind_err_Inr split: if_splits)
  from np_astype_float_Inr[OF c]
  have "list_all2 (\<lambda>c v. tf c = Some v) (map (\<lambda>i. rows a ! i ! j) (group_rows a k g)) v" .
  then have "length v = length (group_rows a k g)"
    and "\<forall>n<length v. tf (rows a ! (group_rows a k g ! n) ! j) = Some (v ! n)"
    by (auto simp: list_all2_conv_all_nth)
  with k j jc show ?thesis by blast
qed

lemma same_column_group_rows:
  assumes "same_column a b k"
  shows "group_rows a k g = group_rows b k g"
proof -
  from assms have len: "length (rows a) = length (rows b)"
    unfolding same_column_def by (metis length_map)
  have "rows a ! i ! k = rows b ! i ! k" if "i < length (rows b)" for i
  proof -
    have "map (\<lambda>r. r ! k) (rows a) ! i = map (\<lambda>r. r ! k) (rows b) ! i"
      using assms unfolding same_column_def by simp
    then show ?thesis using that len by simp
  qed
  then show ?thesis unfolding group_rows_def len by (intro filter_cong) auto
qed

lemma two_sem_bandI:
  assumes ys: "length ys = length idx" and ss: "length ss = length idx"
    and xs: "length xs = length ys"
    and cells: "\<forall>n<length ss. tf (rows sems ! (idx ! n) ! j) = Some (ss ! n)"
    and lo: "np_sub ys (np_scale 2 ss) = Inr lo" and hi: "np_add ys (np_scale 2 ss) = Inr hi"
  shows "two_sem_band tf sems idx j [Plot xs ys l 3, FillBetween xs lo hi (1/5)]"
proof -
  have len: "length ys = length (np_scale 2 ss)" using ys ss by (simp add: np_scale_def)
  have lo': "lo = map2 (\<lambda>m s. m - 2 * s) ys ss" and hi': "hi = map2 (\<lambda>m s. m + 2 * s) ys ss"
    using lo hi len by (simp_all add: np_sub_def np_add_def np_binop_same map2_scale)
  have "\<exists>s. tf (rows sems ! (idx ! n) ! j) = Some s \<and>
             lo ! n = ys ! n - 2 * s \<and> hi ! n = ys ! n + 2 * s" if "n < length ys" for n
    using that cells ys ss by (intro exI[of _ "ss ! n"]) (simp add: lo' hi')
  then show ?thesis
    unfolding two_sem_band_def using xs ys ss by (auto simp: lo' hi')
qed

lemma mean_bandI:
  assumes "mean_curve tf means idx j l cb" and "two_sem_band tf sems idx j cb"
  shows "mean_band tf means sems idx j cb"
proof -
  from assms(2) obtain xs ys l' lo hi where
    cb: "cb = [Plot xs ys l' 3, FillBetween xs lo hi (1/5)]" and
    len: "length lo = length ys" "length hi = length ys" "length idx = length ys" and
    band: "\<forall>n<length ys. \<exists>s. tf (rows sems ! (idx ! n) ! j) = Some s \<and>
             lo ! n = ys ! n - 2 * s \<and> hi ! n = ys ! n + 2 * s"
    unfolding two_sem_band_def by blast
  from assms(1) cb have mc: "\<forall>n<length ys. tf (rows means ! (idx ! n) ! j) = Some (ys ! n)"
    unfolding mean_curve_def by auto
  have "\<exists>m s. tf (rows means ! (idx ! n) ! j) = Some m \<and>
             tf (rows sems ! (idx ! n) ! j) = Some s \<and>
             lo ! n = m - 2 * s \<and> hi ! n = m + 2 * s" if "n < length idx" for n
    using that mc band len by (metis)
  then show ?thesis unfolding mean_band_def using cb len by auto
qed

lemma volt_step_curve:
  assumes st: "volt_step tf dsm x y groupby g cb"
    and k: "ds_descriptors dsm groupby = Some k"
    and same: "same_column (ds_means dsm) (ds_sems dsm) k"
  shows "volt_curve tf dsm x y k g cb"
proof -
  let ?idx = "group_rows (ds_means dsm) k g"
  from st obtain xs ys ss lo hi where
    xv: "masked_float_col tf (ds_means dsm) (ds_descriptors dsm) groupby g (ds_descriptors dsm) x = Inr xs" and
    ys: "masked_float_col tf (ds_means dsm) (ds_descriptors dsm) groupby g (ds_electrodes dsm) y = Inr ys" and
    ss: "masked_float_col tf (ds_sems dsm) (ds_descriptors dsm) groupby g (ds_electrodes dsm) y = Inr ss" and
    lo: "np_sub ys (np_scale 2 ss) = Inr lo" and hi: "np_add ys (np_scale 2 ss) = Inr hi" and
    xs: "length xs = length ys" and
    cb: "cb = [Plot xs ys g 3, FillBetween xs lo hi (1/5)]"
    unfolding volt_step_def by blast
  from masked_float_col_Inr[OF ys] k obtain j where j: "ds_electrodes dsm y = Some j"
    and lys: "length ys = length ?idx"
    and cys: "\<forall>n<length ys. tf (rows (ds_means dsm) ! (?idx ! n) ! j) = Some (ys ! n)"
    by auto
  from masked_float_col_Inr[OF xv] k obtain jx where jx: "ds_descriptors dsm x = Some jx"
    and lxs: "length xs = length ?idx"
    and cxs: "\<forall>n<length xs. tf (rows (ds_means dsm) ! (?idx ! n) ! jx) = Some (xs ! n)"
    by auto
  from masked_float_col_Inr[OF ss] k j same_column_group_rows[OF same, of g]
  have lss: "length ss = length ?idx"
    and css: "\<forall>n<length ss. tf (rows (ds_sems dsm) ! (?idx ! n) ! j) = Some (ss ! n)"
    by auto
  have cx: "curve_xs tf (ds_means dsm) ?idx jx cb"
    unfolding curve_xs_def cb using lxs cxs by auto
  have mc: "mean_curve tf (ds_means dsm) ?idx j g cb"
    unfolding mean_curve_def cb using lys cys by auto
  have band: "two_sem_band tf (ds_sems dsm) ?idx j cb"
    unfolding cb using lys lss xs css lo hi by (rule two_sem_bandI)
  from j jx cx mc band mean_bandI[OF mc band] show ?thesis
    unfolding volt_curve_def by blast
qed

lemma plot_voltages_curves:
  assumes run: "plot_voltages tf dsm x y groupby group_order title tfs legend lfs ax colors ymin ymax
             = Inr (nf, ax')"
    and al: "groupby_aligned dsm groupby"
  shows "\<exists>groups cbs k. drawn_groups dsm groupby group_order = Inr groups \<and>
           ds_descriptors dsm groupby = Some k \<and>
           ax' = decorate (snd (start_axes ax colors) @ concat cbs) title tfs legend lfs ymin ymax \<and>
           list_all2 (volt_curve tf dsm x y k) groups cbs"
proof -
  from plot_voltages_Inr[OF run] obtain groups cbs where
    g: "drawn_groups dsm groupby group_order = Inr groups" and
    ax': "ax' = decorate (snd (start_axes ax colors) @ concat cbs) title tfs legend lfs ymin ymax" and
    all: "list_all2 (volt_step tf dsm x y groupby) groups cbs" by blast
  from g obtain k where k: "ds_descriptors dsm groupby = Some k"
    by (auto simp: drawn_groups_def bind_err_Inr dict_get_def split: option.splits)
  from al k have same: "same_column (ds_means dsm) (ds_sems dsm) k"
    by (simp add: groupby_aligned_def)
  from all have "list_all2 (volt_curve tf dsm x y k) groups cbs"
    by (rule list_all2_mono) (rule volt_step_curve[OF _ k same])
  with g k ax' show ?thesis by blast
qed

lemma float_col_Inr:
  assumes "float_col tf a d key = Inr v"
  shows "\<exists>j. d key = Some j \<and> j < ncols a \<and> length v = length (rows a) \<and>
           (\<forall>n<length v. tf (rows a ! n ! j) = Some (v ! n))"
proof -
  from assms obtain j where j: "d key = Some j" "j < ncols a"
    and c: "np_astype_float tf (map (\<lambda>r. r ! j) (rows a)) = Inr v"
    by (auto simp: float_col_def bind_err_Inr dict_get_def np_col_def split: option.splits if_splits)
  from np_astype_float_Inr[OF c] j show ?thesis
    by (auto simp: list_all2_conv_all_nth)
qed

lemma coef_step_curve:
  assumes st: "coef_step tf msm x y anchor ip cb"
    and al: "length (rows (ms_sems msm)) = length (rows (ms_means msm))"
  shows "coef_curve tf msm x y anchor ip cb"
proof -
  let ?n = "length (rows (ms_means msm))"
  from st obtain xs sv ss yv l lo hi where
    xv: "float_col tf (ms_means msm) (ms_descriptors msm) x = Inr xs" and
    sv: "float_col tf (ms_means msm) (ms_coefficients msm) (y, snd ip) = Inr sv" and
    ss: "float_col tf (ms_sems msm) (ms_coefficients msm) (y, snd ip) = Inr ss" and
    lo: "np_sub yv (np_scale 2 ss) = Inr lo" and hi: "np_add yv (np_scale 2 ss) = Inr hi" and
    xs: "length xs = length yv" and yv: "length yv = length sv" and
    cb: "cb = [Plot xs yv l 3, FillBetween xs lo hi (1/5)]" and
    an: "if anchor \<and> fst ip > 0
         then \<exists>p0 ps iv. ms_predictors msm = p0 # ps \<and>
                float_col tf (ms_means msm) (ms_coefficients msm) (y, p0) = Inr iv \<and>
                yv = map2 (+) sv iv \<and> l = p0 @ '' + '' @ snd ip
         else yv = sv \<and> l = snd ip"
    unfolding coef_step_def by blast
  from float_col_Inr[OF ss] al obtain j where j: "ms_coefficients msm (y, snd ip) = Some j"
    and lss: "length ss = ?n"
    and css: "\<forall>n<length ss. tf (rows (ms_sems msm) ! n ! j) = Some (ss ! n)" by auto
  from float_col_Inr[OF sv] j have lsv: "length sv = ?n"
    and csv: "\<forall>n<length sv. tf (rows (ms_means msm) ! n ! j) = Some (sv ! n)" by auto
  from float_col_Inr[OF xv] obtain jx where jx: "ms_descriptors msm x = Some jx"
    and lxs: "length xs = ?n"
    and cxs: "\<forall>n<length xs. tf (rows (ms_means msm) ! n ! jx) = Some (xs ! n)" by auto
  have lyv: "length yv = length [0..<?n]" using yv lsv by simp
  have lss': "length ss = length [0..<?n]" using lss by simp
  have css': "\<forall>n<length ss. tf (rows (ms_sems msm) ! ([0..<?n] ! n) ! j) = Some (ss ! n)"
    using css lss by simp
  have band: "two_sem_band tf (ms_sems msm) [0..<?n] j cb"
    unfolding cb using lyv lss' xs css' lo hi by (rule two_sem_bandI)
  have cx: "curve_xs tf (ms_means msm) [0..<?n] jx cb"
    unfolding curve_xs_def cb using lxs cxs by auto
  have curve: "if anchor \<and> 0 < fst ip
         then \<exists>p0 ps j0. ms_predictors msm = p0 # ps \<and> ms_coefficients msm (y, p0) = Some j0 \<and>
                anchored_curve tf (ms_means msm) [0..<?n] j j0 (p0 @ '' + '' @ snd ip) cb
         else mean_curve tf (ms_means msm) [0..<?n] j (snd ip) cb \<and>
              mean_band tf (ms_means msm) (ms_sems msm) [0..<?n] j cb"
  proof (cases "anchor \<and> 0 < fst ip")
    case True
    with an obtain p0 ps iv where p: "ms_predictors msm = p0 # ps"
      and iv: "float_col tf (ms_means msm) (ms_coefficients msm) (y, p0) = Inr iv"
      and yv': "yv = map2 (+) sv iv" and l: "l = p0 @ '' + '' @ snd ip" by auto
    from float_col_Inr[OF iv] obtain j0 where j0: "ms_coefficients msm (y, p0) = Some j0"
      and liv: "length iv = ?n"
      and civ: "\<forall>n<length iv. tf (rows (ms_means msm) ! n ! j0) = Some (iv ! n)" by auto
    have "anchored_curve tf (ms_means msm) [0..<?n] j j0 (p0 @ '' + '' @ snd ip) cb"
      unfolding anchored_curve_def cb l yv' using lsv liv csv civ by auto
    with True p j0 show ?thesis by auto
  next
    case False
    with an have e: "yv = sv" "l = snd ip" by auto
    have mc: "mean_curve tf (ms_means msm) [0..<?n] j (snd ip) cb"
      unfolding mean_curve_def cb e using lsv csv by auto
    from mean_bandI[OF mc band] mc False show ?thesis by auto
  qed
  from j jx cx band curve show ?thesis unfolding coef_curve_def by blast
qed

lemma plot_coefficients_curves:
  assumes run: "plot_coefficients tf msm x y anchor title tfs legend lfs ax colors ymin ymax
             = Inr (nf, ax')"
    and al: "length (rows (ms_sems msm)) = length (rows (ms_means msm))"
  shows "\<exists>cbs. ax' = decorate (snd (start_axes ax colors) @ concat cbs) title tfs legend lfs ymin ymax \<and>
           list_all2 (coef_curve tf msm x y anchor) (enumerate_py (ms_predictors msm)) cbs"
proof -
  from plot_coefficients_Inr[OF run] obtain cbs where
    ax': "ax' = decorate (snd (start_axes ax colors) @ concat cbs) title tfs legend lfs ymin ymax"
    and all: "list_all2 (coef_step tf msm x y anchor) (enumerate_py (ms_predictors msm)) cbs"
    by blast
  from all have "list_all2 (coef_curve tf msm x y anchor) (enumerate_py (ms_predictors msm)) cbs"
    by (rule list_all2_mono) (rule coef_step_curve[OF _ al])
  with ax' show ?thesis by blast
qed

lemma curve_labels_append: "curve_labels (a @ b) = curve_labels a @ curve_labels b"
  by (simp add: curve_labels_def)

lemma curve_labels_decorate:
  "curve_labels (added_calls ax colors
      (decorate (snd (start_axes ax colors) @ new) title tfs legend lfs ymin ymax))
   = curve_labels new"
  by (simp add: added_calls_def decorate_def curve_labels_def)

lemma curve_labels_steps:
  assumes "list_all2 (volt_step tf dsm x y groupby) gs cbs"
  shows "curve_labels (concat cbs) = gs"
  using assms
  by (induction rule: list_all2_induct)
     (auto simp: curve_labels_def volt_step_def)

lemma np_unique_props: "sorted_wrt (<) (np_unique v) \<and> set (np_unique v) = set v"
  by (simp add: np_unique_def strict_sorted_iff)
























section \<open>Properties of the plotting functions\<close>

text \<open>
  Claim C8. With \<open>anchor=True\<close>, \<open>plot_coefficients\<close> plots the trajectory of the first
  predictor (the intercept) unmodified and under its own name, and plots every later
  predictor \<open>p\<close> as its own trajectory plus the intercept's, labelled
  \<open><intercept> + <p>\<close>.
\<close>

theorem plot_coefficients_anchor:
  assumes "plot_coefficients tf msm x y True title tfs legend lfs ax colors ymin ymax = Inr (nf, ax')"
      and "ms_predictors msm = p0 # ps"
  shows "\<exists>xs iv slopes.
      float_col tf (ms_means msm) (ms_descriptors msm) x = Inr xs \<and>
      float_col tf (ms_means msm) (ms_coefficients msm) (y, p0) = Inr iv \<and>
      filter is_plot (added_calls ax colors ax') = Plot xs iv p0 3 # slopes \<and>
      list_all2 (\<lambda>p c. \<exists>sv. float_col tf (ms_means msm) (ms_coefficients msm) (y, p) = Inr sv \<and>
                   c = Plot xs (map2 (+) sv iv) (p0 @ '' + '' @ p) 3) ps slopes"
proof -
  from plot_coefficients_Inr[OF assms(1)] obtain cbs where
    ax': "ax' = decorate (snd (start_axes ax colors) @ concat cbs) title tfs legend lfs ymin ymax"
    and all: "list_all2 (coef_step tf msm x y True) (enumerate_py (ms_predictors msm)) cbs"
    by blast
  from all obtain cb0 cbs' where cbs: "cbs = cb0 # cbs'"
    and c0: "coef_step tf msm x y True (0, p0) cb0"
    and rest: "list_all2 (coef_step tf msm x y True) (zip [1..<1 + length ps] ps) cbs'"
    unfolding assms(2) enumerate_py_Cons by (auto simp: list_all2_Cons1)
  from c0 obtain xs iv lo hi where
    xs: "float_col tf (ms_means msm) (ms_descriptors msm) x = Inr xs" and
    iv: "float_col tf (ms_means msm) (ms_coefficients msm) (y, p0) = Inr iv" and
    cb0: "cb0 = [Plot xs iv p0 3, FillBetween xs lo hi (1/5)]"
    unfolding coef_step_def by auto
  let ?Q = "\<lambda>p c. \<exists>sv. float_col tf (ms_means msm) (ms_coefficients msm) (y, p) = Inr sv \<and>
                   c = Plot xs (map2 (+) sv iv) (p0 @ '' + '' @ p) 3"
  have "list_all2 (\<lambda>p cb. \<exists>i\<ge>1. coef_step tf msm x y True (i, p) cb) ps cbs'"
    using list_all2_zip_upt[OF rest] .
  then have "list_all2 (\<lambda>p cb. \<exists>c b. cb = [c, b] \<and> is_plot c \<and> \<not> is_plot b \<and> ?Q p c) ps cbs'"
  proof (rule list_all2_mono)
    fix p cb assume "\<exists>i\<ge>1. coef_step tf msm x y True (i, p) cb"
    then obtain i where i: "i \<ge> (1::nat)" and st: "coef_step tf msm x y True (i, p) cb" by blast
    from st i xs iv assms(2) show "\<exists>c b. cb = [c, b] \<and> is_plot c \<and> \<not> is_plot b \<and> ?Q p c"
      unfolding coef_step_def by auto
  qed
  then have "list_all2 ?Q ps (filter is_plot (concat cbs'))" by (rule filter_plot_pairs)
  moreover have "filter is_plot (added_calls ax colors ax')
      = Plot xs iv p0 3 # filter is_plot (concat cbs')"
    unfolding ax' added_calls_decorate cbs cb0 by simp
  ultimately show ?thesis using xs iv by blast
qed

text \<open>
  On the example summary the intercept is plotted as \<open>[1, 2]\<close> and the slope
  \<open>[10, 20]\<close> as \<open>[11, 22]\<close>, labelled \<open>intercept + plaus\<close>.
\<close>

theorem plot_coefficients_anchor_witness:
  "\<exists>nf ax'.
     plot_coefficients Some msm_example ''Timestamp'' ''Pz'' True None 14 True 12 None None None None
       = Inr (nf, ax') \<and>
     ms_predictors msm_example = ''intercept'' # [''plaus''] \<and>
     filter is_plot (added_calls None None ax')
       = [Plot [0, 100] [1, 2] ''intercept'' 3, Plot [0, 100] [11, 22] ''intercept + plaus'' 3]"
proof -
  have run: "plot_coefficients Some msm_example ''Timestamp'' ''Pz'' True None 14 True 12 None None
       None None
     = Inr (True,
        [InvertYaxis, Plot [0, 100] [1, 2] ''intercept'' 3,
         FillBetween [0, 100] [0, 3 / 2] [2, 5 / 2] (1 / 5),
         Plot [0, 100] [11, 22] ''intercept + plaus'' 3,
         FillBetween [0, 100] [9, 18] [13, 26] (1 / 5), Grid,
         AxVSpan 300 500 ''grey'' (1 / 5), AxVSpan 600 1000 ''grey'' (1 / 5),
         AxHLine 0 ''black'', AxVLine 0 ''black'',
         TickParams ''both'' ''major'' 12, TickParams ''both'' ''minor'' 12,
         XTickLabelBottom True, YTickLabelLeft True, Legend ''lower left'' 12])"
    by code_simp
  have preds: "ms_predictors msm_example = ''intercept'' # [''plaus'']"
    by (simp add: msm_example_def)
  from plot_coefficients_anchor[OF run preds] obtain xs iv slopes where
    "filter is_plot (added_calls None None
        [InvertYaxis, Plot [0, 100] [1, 2] ''intercept'' 3,
         FillBetween [0, 100] [0, 3 / 2] [2, 5 / 2] (1 / 5),
         Plot [0, 100] [11, 22] ''intercept + plaus'' 3,
         FillBetween [0, 100] [9, 18] [13, 26] (1 / 5), Grid,
         AxVSpan 300 500 ''grey'' (1 / 5), AxVSpan 600 1000 ''grey'' (1 / 5),
         AxHLine 0 ''black'', AxVLine 0 ''black'',
         TickParams ''both'' ''major'' 12, TickParams ''both'' ''minor'' 12,
         XTickLabelBottom True, YTickLabelLeft True, Legend ''lower left'' 12])
      = Plot xs iv ''intercept'' 3 # slopes" by blast
  then have "filter is_plot (added_calls None None
        [InvertYaxis, Plot [0, 100] [1, 2] ''intercept'' 3,
         FillBetween [0, 100] [0, 3 / 2] [2, 5 / 2] (1 / 5),
         Plot [0, 100] [11, 22] ''intercept + plaus'' 3,
         FillBetween [0, 100] [9, 18] [13, 26] (1 / 5), Grid,
         AxVSpan 300 500 ''grey'' (1 / 5), AxVSpan 600 1000 ''grey'' (1 / 5),
         AxHLine 0 ''black'', AxVLine 0 ''black'',
         TickParams ''both'' ''major'' 12, TickParams ''both'' ''minor'' 12,
         XTickLabelBottom True, YTickLabelLeft True, Legend ''lower left'' 12])
      = [Plot [0, 100] [1, 2] ''intercept'' 3, Plot [0, 100] [11, 22] ''intercept + plaus'' 3]"
    by (simp add: added_calls_def start_axes_def truthy_list_def)
  with run preds show ?thesis by blast
qed

text \<open>
  Claim C9. \<open>plot_voltages\<close> with the default \<open>group_order=None\<close> always raises. With a
  list \<open>order\<close>, a call that returns has drawn one curve per group, labelled with the
  group, in the order \<open>order\<close> when the set of its names equals the set of values of
  the \<open>groupby\<close> column of the means, and in the sorted order of the distinct values
  otherwise; so the curves come in the caller's order exactly when the two sets are
  equal.
\<close>

theorem plot_voltages_group_order:
  "(\<exists>e. plot_voltages tf dsm x y groupby None title tfs legend lfs ax colors ymin ymax = Inl e) \<and>
   (plot_voltages tf dsm x y groupby (Some order) title tfs legend lfs ax colors ymin ymax
      = Inr (nf, ax') \<longrightarrow>
    (\<exists>k gc. ds_descriptors dsm groupby = Some k \<and> np_col (ds_means dsm) k = Inr gc \<and>
       curve_labels (added_calls ax colors ax')
         = (if set order = set gc then order else np_unique gc) \<and>
       sorted_wrt (<) (np_unique gc) \<and> set (np_unique gc) = set gc \<and>
       (curve_labels (added_calls ax colors ax') = order \<longleftrightarrow> set order = set gc)))"
proof (intro conjI impI)
  have "drawn_groups dsm groupby None = Inl KeyError \<or>
        drawn_groups dsm groupby None = Inl IndexError \<or>
        drawn_groups dsm groupby None = Inl TypeError"
    by (auto simp: drawn_groups_def bind_err_def dict_get_def np_col_def split: option.splits)
  then show "\<exists>e. plot_voltages tf dsm x y groupby None title tfs legend lfs ax colors ymin ymax = Inl e"
    by (auto simp: plot_voltages_def bind_err_def split: prod.splits)
next
  assume run: "plot_voltages tf dsm x y groupby (Some order) title tfs legend lfs ax colors ymin ymax
      = Inr (nf, ax')"
  from plot_voltages_Inr[OF run] obtain groups cbs where
    g: "drawn_groups dsm groupby (Some order) = Inr groups" and
    ax': "ax' = decorate (snd (start_axes ax colors) @ concat cbs) title tfs legend lfs ymin ymax" and
    all: "list_all2 (volt_step tf dsm x y groupby) groups cbs" by blast
  from g obtain k gc where k: "ds_descriptors dsm groupby = Some k"
    and gc: "np_col (ds_means dsm) k = Inr gc"
    and groups: "groups = (if set order = set gc then order else np_unique gc)"
    by (auto simp: drawn_groups_def bind_err_Inr dict_get_def np_unique_props Let_def
             split: option.splits)
  have lab: "curve_labels (added_calls ax colors ax') = groups"
    unfolding ax' curve_labels_decorate using all by (rule curve_labels_steps)
  have "(groups = order) = (set order = set gc)"
    unfolding groups using np_unique_props[of gc] by auto
  with k gc lab groups np_unique_props[of gc]
  show "\<exists>k gc. ds_descriptors dsm groupby = Some k \<and> np_col (ds_means dsm) k = Inr gc \<and>
       curve_labels (added_calls ax colors ax')
         = (if set order = set gc then order else np_unique gc) \<and>
       sorted_wrt (<) (np_unique gc) \<and> set (np_unique gc) = set gc \<and>
       (curve_labels (added_calls ax colors ax') = order \<longleftrightarrow> set order = set gc)"
    by (intro exI[of _ k] exI[of _ gc]) simp
qed

text \<open>
  On the example summary, whose conditions are 1 and 2: the order \<open>[2, 1]\<close> is
  followed, the order \<open>[2, 1, 3]\<close>, which names a condition that does not occur, is
  ignored, and the curves are drawn as 1, 2.
\<close>

theorem plot_voltages_group_order_witness:
  "(\<exists>nf ax'. plot_voltages float_of_nat dsm_example ''Timestamp'' ''Pz'' ''Condition'' (Some [2, 1])
        None 14 True 12 None None None None = Inr (nf, ax') \<and>
      curve_labels (added_calls None None ax') = [2, 1]) \<and>
   (\<exists>nf ax'. plot_voltages float_of_nat dsm_example ''Timestamp'' ''Pz'' ''Condition'' (Some [2, 1, 3])
        None 14 True 12 None None None None = Inr (nf, ax') \<and>
      curve_labels (added_calls None None ax') = [1, 2])"
proof -
  have k: "ds_descriptors dsm_example ''Condition'' = Some 0"
    by (simp add: dsm_example_def)
  have col: "np_col (ds_means dsm_example) 0 = Inr [2, 1, 2, 1]"
    by (simp add: np_col_def dsm_example_def)
  have uniq: "np_unique [2, 1, 2, 1::nat] = [1, 2]"
    by (simp add: np_unique_def)
  have run1: "plot_voltages float_of_nat dsm_example ''Timestamp'' ''Pz'' ''Condition'' (Some [2, 1])
        None 14 True 12 None None None None
    = Inr (True,
      [InvertYaxis, Plot [0, 100] [10, 30] 2 3,
       FillBetween [0, 100] [8, 24] [12, 36] (1 / 5),
       Plot [0, 100] [20, 40] 1 3,
       FillBetween [0, 100] [16, 32] [24, 48] (1 / 5), Grid,
       AxVSpan 300 500 ''grey'' (1 / 5), AxVSpan 600 1000 ''grey'' (1 / 5),
       AxHLine 0 ''black'', AxVLine 0 ''black'',
       TickParams ''both'' ''major'' 12, TickParams ''both'' ''minor'' 12,
       XTickLabelBottom True, YTickLabelLeft True, Legend ''lower left'' 12])"
    by code_simp
  have run2: "plot_voltages float_of_nat dsm_example ''Timestamp'' ''Pz'' ''Condition''
        (Some [2, 1, 3]) None 14 True 12 None None None None
    = Inr (True,
      [InvertYaxis, Plot [0, 100] [20, 40] 1 3,
       FillBetween [0, 100] [16, 32] [24, 48] (1 / 5),
       Plot [0, 100] [10, 30] 2 3,
       FillBetween [0, 100] [8, 24] [12, 36] (1 / 5), Grid,
       AxVSpan 300 500 ''grey'' (1 / 5), AxVSpan 600 1000 ''grey'' (1 / 5),
       AxHLine 0 ''black'', AxVLine 0 ''black'',
       TickParams ''both'' ''major'' 12, TickParams ''both'' ''minor'' 12,
       XTickLabelBottom True, YTickLabelLeft True, Legend ''lower left'' 12])"
    by code_simp
  from plot_voltages_group_order[THEN conjunct2, rule_format, OF run1] k col
  have "curve_labels (added_calls None None
      [InvertYaxis, Plot [0, 100] [10, 30] 2 3,
       FillBetween [0, 100] [8, 24] [12, 36] (1 / 5),
       Plot [0, 100] [20, 40] 1 3,
       FillBetween [0, 100] [16, 32] [24, 48] (1 / 5), Grid,
       AxVSpan 300 500 ''grey'' (1 / 5), AxVSpan 600 1000 ''grey'' (1 / 5),
       AxHLine 0 ''black'', AxVLine 0 ''black'',
       TickParams ''both'' ''major'' 12, TickParams ''both'' ''minor'' 12,
       XTickLabelBottom True, YTickLabelLeft True, Legend ''lower left'' (12::nat)]) = [2, 1::nat]"
    by auto
  with run1 have a: "\<exists>nf ax'. plot_voltages float_of_nat dsm_example ''Timestamp'' ''Pz''
        ''Condition'' (Some [2, 1]) None 14 True 12 None None None None = Inr (nf, ax') \<and>
      curve_labels (added_calls None None ax') = [2, 1]" by blast
  have "(3::nat) \<in> set [2, 1, 3]" and "(3::nat) \<notin> set [2, 1, 2, 1]" by simp_all
  then have ne: "set [2, 1, 3::nat] \<noteq> set [2, 1, 2, 1]" by blast
  from plot_voltages_group_order[THEN conjunct2, rule_format, OF run2] k col uniq ne
  have "curve_labels (added_calls None None
      [InvertYaxis, Plot [0, 100] [20, 40] 1 3,
       FillBetween [0, 100] [16, 32] [24, 48] (1 / 5),
       Plot [0, 100] [10, 30] 2 3,
       FillBetween [0, 100] [8, 24] [12, 36] (1 / 5), Grid,
       AxVSpan 300 500 ''grey'' (1 / 5), AxVSpan 600 1000 ''grey'' (1 / 5),
       AxHLine 0 ''black'', AxVLine 0 ''black'',
       TickParams ''both'' ''major'' 12, TickParams ''both'' ''minor'' 12,
       XTickLabelBottom True, YTickLabelLeft True, Legend ''lower left'' (12::nat)]) = [1, 2::nat]"
    by auto
  with run2 have b: "\<exists>nf ax'. plot_voltages float_of_nat dsm_example ''Timestamp'' ''Pz''
        ''Condition'' (Some [2, 1, 3]) None 14 True 12 None None None None = Inr (nf, ax') \<and>
      curve_labels (added_calls None None ax') = [1, 2]" by blast
  from a b show ?thesis by blast
qed




text \<open>
  A band that does not surround the mean. On the example summary of coefficients,
  \<open>plot_coefficients\<close> with \<open>anchor=True\<close> plots the slope of the second predictor
  with the intercept added, \<open>[10 + 1, 20 + 2]\<close>, and shades the band around that
  curve: \<open>[11 - 2 * 1, 22 - 2 * 2]\<close> to \<open>[11 + 2 * 1, 22 + 2 * 2]\<close>. The band from the
  mean minus to the mean plus twice the standard error, \<open>[8, 16]\<close> to \<open>[12, 24]\<close>, is
  a different one.
\<close>

theorem anchored_band_not_around_mean:
  "plot_coefficients Some msm_example ''Timestamp'' ''Pz'' True None 14 True 12 None None None None
     = Inr (True,
        [InvertYaxis, Plot [0, 100] [1, 2] ''intercept'' 3,
         FillBetween [0, 100] [0, 3 / 2] [2, 5 / 2] (1 / 5),
         Plot [0, 100] [11, 22] ''intercept + plaus'' 3,
         FillBetween [0, 100] [9, 18] [13, 26] (1 / 5), Grid,
         AxVSpan 300 500 ''grey'' (1 / 5), AxVSpan 600 1000 ''grey'' (1 / 5),
         AxHLine 0 ''black'', AxVLine 0 ''black'',
         TickParams ''both'' ''major'' 12, TickParams ''both'' ''minor'' 12,
         XTickLabelBottom True, YTickLabelLeft True, Legend ''lower left'' 12]) \<and>
   ms_coefficients msm_example (''Pz'', ''plaus'') = Some 2 \<and>
   \<not> mean_band Some (ms_means msm_example) (ms_sems msm_example) [0..<2] 2
       [Plot [0, 100] [11, 22] ''intercept + plaus'' 3,
        FillBetween [0, 100] [9, 18] [13, 26] (1 / 5)] \<and>
   mean_band Some (ms_means msm_example) (ms_sems msm_example) [0..<2] 2
       [Plot [0, 100] [11, 22] ''intercept + plaus'' 3,
        FillBetween [0, 100] [8, 16] [12, 24] (1 / 5)]"
proof -
  have run: "plot_coefficients Some msm_example ''Timestamp'' ''Pz'' True None 14 True 12 None None
       None None
     = Inr (True,
        [InvertYaxis, Plot [0, 100] [1, 2] ''intercept'' 3,
         FillBetween [0, 100] [0, 3 / 2] [2, 5 / 2] (1 / 5),
         Plot [0, 100] [11, 22] ''intercept + plaus'' 3,
         FillBetween [0, 100] [9, 18] [13, 26] (1 / 5), Grid,
         AxVSpan 300 500 ''grey'' (1 / 5), AxVSpan 600 1000 ''grey'' (1 / 5),
         AxHLine 0 ''black'', AxVLine 0 ''black'',
         TickParams ''both'' ''major'' 12, TickParams ''both'' ''minor'' 12,
         XTickLabelBottom True, YTickLabelLeft True, Legend ''lower left'' 12])"
    by code_simp
  have col: "ms_coefficients msm_example (''Pz'', ''plaus'') = Some 2"
    by (simp add: msm_example_def)
  have off: "\<not> mean_band Some (ms_means msm_example) (ms_sems msm_example) [0..<2] 2
       [Plot [0, 100] [11, 22] ''intercept + plaus'' 3,
        FillBetween [0, 100] [9, 18] [13, 26] (1 / 5)]"
  proof
    assume "mean_band Some (ms_means msm_example) (ms_sems msm_example) [0..<2] 2
       [Plot [0, 100] [11, 22] ''intercept + plaus'' 3,
        FillBetween [0, 100] [9, 18] [13, 26] (1 / 5)]"
    then obtain lo :: "real list" where lo: "lo = [9, 18]" and
      all: "\<forall>n<length [0..<2::nat]. \<exists>m s.
          Some (rows (ms_means msm_example) ! ([0..<2] ! n) ! 2) = Some m \<and>
          Some (rows (ms_sems msm_example) ! ([0..<2] ! n) ! 2) = Some s \<and>
          lo ! n = m - 2 * s"
      unfolding mean_band_def by auto
    from all[rule_format, of 0] show False
      by (simp add: msm_example_def lo)
  qed
  have on: "mean_band Some (ms_means msm_example) (ms_sems msm_example) [0..<2] 2
       [Plot [0, 100] [11, 22] ''intercept + plaus'' 3,
        FillBetween [0, 100] [8, 16] [12, 24] (1 / 5)]"
    unfolding mean_band_def
    by (auto simp: msm_example_def less_Suc_eq numeral_2_eq_2 nth_Cons')
  from run col off on show ?thesis by blast
qed

text \<open>
  Claim C7. The band that \<open>plot_voltages\<close> and \<open>plot_coefficients\<close> shade around a curve
  runs, at every point, from the curve minus twice to the curve plus twice the standard
  error: the cell of the summary's \<open>sems\<close> in the row the point comes from and the
  column of the electrode (of the coefficient). A call that returns has added to the
  Axes exactly one such curve and band per group (per predictor), over the x values of
  the summary's column \<open>x\<close>. For \<open>plot_voltages\<close> the curve is the column of means of the
  group, so the band runs from the mean minus to the mean plus twice the standard error;
  the means and standard errors are aligned on the grouping descriptor. For
  \<open>plot_coefficients\<close> the same holds of the first predictor, and of every predictor
  when \<open>anchor\<close> is false. With \<open>anchor\<close> true, the curve of every later predictor is
  the sum of its means and of the means of the first predictor, and the band runs from
  that sum minus to that sum plus twice the standard error of the later predictor; the
  two arrays have the same number of rows.
\<close>

theorem bands_span_two_sem:
  "(plot_voltages tf dsm x y groupby group_order title tfs legend lfs ax colors ymin ymax
      = Inr (nf, ax') \<longrightarrow>
    groupby_aligned dsm groupby \<longrightarrow>
    (\<exists>groups cbs k. drawn_groups dsm groupby group_order = Inr groups \<and>
       ds_descriptors dsm groupby = Some k \<and>
       ax' = decorate (snd (start_axes ax colors) @ concat cbs) title tfs legend lfs ymin ymax \<and>
       list_all2 (volt_curve tf dsm x y k) groups cbs)) \<and>
   (plot_coefficients tf2 msm x2 y2 anchor title2 tfs2 legend2 lfs2 ax2 colors2 ymin2 ymax2
      = Inr (nf2, ax2') \<longrightarrow>
    length (rows (ms_sems msm)) = length (rows (ms_means msm)) \<longrightarrow>
    (\<exists>cbs. ax2' = decorate (snd (start_axes ax2 colors2) @ concat cbs) title2 tfs2 legend2 lfs2
                    ymin2 ymax2 \<and>
       list_all2 (coef_curve tf2 msm x2 y2 anchor) (enumerate_py (ms_predictors msm)) cbs))"
  using plot_voltages_curves[of tf dsm x y groupby group_order title tfs legend lfs ax colors ymin
      ymax nf ax']
    plot_coefficients_curves[of tf2 msm x2 y2 anchor title2 tfs2 legend2 lfs2 ax2 colors2 ymin2
      ymax2 nf2 ax2']
  by blast

text \<open>
  On the example summaries, where both alignment conditions hold.
\<close>

theorem bands_span_two_sem_witness:
  "(\<exists>nf ax' cbs.
      plot_voltages float_of_nat dsm_example ''Timestamp'' ''Pz'' ''Condition'' (Some [2, 1])
        None 14 True 12 None None None None = Inr (nf, ax') \<and>
      groupby_aligned dsm_example ''Condition'' \<and>
      ax' = decorate (snd (start_axes None None) @ concat cbs) None 14 True 12 None None \<and>
      list_all2 (volt_curve float_of_nat dsm_example ''Timestamp'' ''Pz'' 0) [2, 1] cbs) \<and>
   (\<exists>nf ax' cbs.
      plot_coefficients Some msm_example ''Timestamp'' ''Pz'' True None 14 True 12 None None None
        None = Inr (nf, ax') \<and>
      length (rows (ms_sems msm_example)) = length (rows (ms_means msm_example)) \<and>
      ax' = decorate (snd (start_axes None None) @ concat cbs) None 14 True 12 None None \<and>
      list_all2 (coef_curve Some msm_example ''Timestamp'' ''Pz'' True)
        [(0, ''intercept''), (1, ''plaus'')] cbs)"
proof -
  have "plot_voltages float_of_nat dsm_example ''Timestamp'' ''Pz'' ''Condition'' (Some [2, 1])
        None 14 True 12 None None None None
    = Inr (True,
      [InvertYaxis, Plot [0, 100] [10, 30] 2 3,
       FillBetween [0, 100] [8, 24] [12, 36] (1 / 5),
       Plot [0, 100] [20, 40] 1 3,
       FillBetween [0, 100] [16, 32] [24, 48] (1 / 5), Grid,
       AxVSpan 300 500 ''grey'' (1 / 5), AxVSpan 600 1000 ''grey'' (1 / 5),
       AxHLine 0 ''black'', AxVLine 0 ''black'',
       TickParams ''both'' ''major'' 12, TickParams ''both'' ''minor'' 12,
       XTickLabelBottom True, YTickLabelLeft True, Legend ''lower left'' 12])"
    by code_simp
  then obtain nf ax' where runv: "plot_voltages float_of_nat dsm_example ''Timestamp'' ''Pz''
        ''Condition'' (Some [2, 1]) None 14 True 12 None None None None = Inr (nf, ax')"
    by blast
  have al: "groupby_aligned dsm_example ''Condition''"
    by (simp add: groupby_aligned_def same_column_def dsm_example_def)
  have k: "ds_descriptors dsm_example ''Condition'' = Some 0"
    by (simp_all add: dsm_example_def)
  have dg: "drawn_groups dsm_example ''Condition'' (Some [2, 1]) = Inr [2, 1]"
    by (auto simp: drawn_groups_def bind_err_def dict_get_def np_col_def dsm_example_def
        np_unique_def)
  from bands_span_two_sem[THEN conjunct1, rule_format, OF runv al] k dg
  obtain cbs where
    "ax' = decorate (snd (start_axes None None) @ concat cbs) None 14 True 12 None None"
    "list_all2 (volt_curve float_of_nat dsm_example ''Timestamp'' ''Pz'' 0) [2, 1] cbs"
    by auto
  then have v: "\<exists>nf ax' cbs.
      plot_voltages float_of_nat dsm_example ''Timestamp'' ''Pz'' ''Condition'' (Some [2, 1])
        None 14 True 12 None None None None = Inr (nf, ax') \<and>
      groupby_aligned dsm_example ''Condition'' \<and>
      ax' = decorate (snd (start_axes None None) @ concat cbs) None 14 True 12 None None \<and>
      list_all2 (volt_curve float_of_nat dsm_example ''Timestamp'' ''Pz'' 0) [2, 1] cbs"
    using runv al by blast
  have "plot_coefficients Some msm_example ''Timestamp'' ''Pz'' True None 14 True 12 None None
       None None
     = Inr (True,
        [InvertYaxis, Plot [0, 100] [1, 2] ''intercept'' 3,
         FillBetween [0, 100] [0, 3 / 2] [2, 5 / 2] (1 / 5),
         Plot [0, 100] [11, 22] ''intercept + plaus'' 3,
         FillBetween [0, 100] [9, 18] [13, 26] (1 / 5), Grid,
         AxVSpan 300 500 ''grey'' (1 / 5), AxVSpan 600 1000 ''grey'' (1 / 5),
         AxHLine 0 ''black'', AxVLine 0 ''black'',
         TickParams ''both'' ''major'' 12, TickParams ''both'' ''minor'' 12,
         XTickLabelBottom True, YTickLabelLeft True, Legend ''lower left'' 12])"
    by code_simp
  then obtain nf2 ax2 where runc: "plot_coefficients Some msm_example ''Timestamp'' ''Pz'' True
       None 14 True 12 None None None None = Inr (nf2, ax2)"
    by blast
  have len: "length (rows (ms_sems msm_example)) = length (rows (ms_means msm_example))"
    by (simp add: msm_example_def)
  have ps: "enumerate_py (ms_predictors msm_example) = [(0, ''intercept''), (1, ''plaus'')]"
    by code_simp
  from bands_span_two_sem[THEN conjunct2, rule_format, OF runc len]
  have "\<exists>cbs. ax2 = decorate (snd (start_axes None None) @ concat cbs) None 14 True 12 None None \<and>
      list_all2 (coef_curve Some msm_example ''Timestamp'' ''Pz'' True)
        [(0, ''intercept''), (1, ''plaus'')] cbs"
    unfolding ps by blast
  with runc len have c: "\<exists>nf ax' cbs.
      plot_coefficients Some msm_example ''Timestamp'' ''Pz'' True None 14 True 12 None None None
        None = Inr (nf, ax') \<and>
      length (rows (ms_sems msm_example)) = length (rows (ms_means msm_example)) \<and>
      ax' = decorate (snd (start_axes None None) @ concat cbs) None 14 True 12 None None \<and>
      list_all2 (coef_curve Some msm_example ''Timestamp'' ''Pz'' True)
        [(0, ''intercept''), (1, ''plaus'')] cbs"
    by blast
  from v c show ?thesis by blast
qed

end
